theory Spec2Isabelle
  imports Main "HOL-Library.AList" "HOL-Library.Multiset"
begin

section \<open>Python values and exceptions\<close>

text \<open>
  Decoded JSON frames and request payloads are Python values built from \<open>None\<close>,
  booleans, integers, strings, lists and dictionaries with string keys. A dictionary
  is an association list in insertion order.
\<close>

datatype pyval =
    PNone
  | PBool bool
  | PInt int
  | PStr string
  | PList "pyval list"
  | PDict "(string \<times> pyval) list"

text \<open>The exceptions the modelled code can raise.\<close>

datatype error =
    KeyError
  | TypeError
  | JSONDecodeError
  | InvalidStateError
  | AssertionError
  | MinerException string

text \<open>
  A call that mutates an object and may raise returns \<open>Inr s'\<close> when it returns
  normally and \<open>Inl (e, s')\<close> when it raises \<open>e\<close>; \<open>s'\<close> is the object as the call
  left it, so that a mutation made before the raise stays visible.
\<close>

type_synonym 's result = "(error \<times> 's) + 's"

text \<open>\<open>d[k]\<close> for a string key \<open>k\<close>: only a dictionary can be subscripted by a string.\<close>

fun getitem :: "pyval \<Rightarrow> string \<Rightarrow> error + pyval" where
  "getitem (PDict kvs) k =
     (case map_of kvs k of None \<Rightarrow> Inl KeyError | Some v \<Rightarrow> Inr v)"
| "getitem _ k = Inl TypeError"

text \<open>\<open>d[k] = v\<close> on a dictionary: an existing key keeps its position, a new key goes last.\<close>

definition setitem :: "(string \<times> 'v) list \<Rightarrow> string \<Rightarrow> 'v \<Rightarrow> (string \<times> 'v) list" where
  "setitem d k v = AList.update k v d"

section \<open>constants.py\<close>

subsection \<open>GQLOperation\<close>

text \<open>
  A \<open>GQLOperation\<close> is a dictionary object. Objects live in a store: the list of
  the entries of every allocated object, an object's address being its position.
  A new object goes to the end. \<open>copy(self)\<close> allocates a new object with the same
  top-level entries (a shallow copy: the values are shared, not copied).
\<close>

type_synonym store = "(string \<times> pyval) list list"

definition alloc :: "(string \<times> pyval) list \<Rightarrow> store \<Rightarrow> nat \<times> store" where
  "alloc d h = (length h, h @ [d])"

text \<open>\<open>GQLOperation.__init__(name, sha256, variables=None)\<close>.\<close>

definition GQLOperation_init :: "string \<Rightarrow> string \<Rightarrow> pyval option \<Rightarrow> (string \<times> pyval) list" where
  "GQLOperation_init name sha256 variables =
     (let d = [(''operationName'', PStr name),
               (''extensions'',
                  PDict [(''persistedQuery'',
                            PDict [(''version'', PInt 1), (''sha256Hash'', PStr sha256)])])]
      in case variables of
           None \<Rightarrow> d
         | Some vs \<Rightarrow> setitem d ''variables'' vs)"

text \<open>\<open>copy(self)\<close>: a new object of the same class holding the same items.\<close>

definition copy :: "nat \<Rightarrow> store \<Rightarrow> nat \<times> store" where
  "copy a h = alloc (h ! a) h"

text \<open>
  \<open>GQLOperation.with_variables(self, variables)\<close>: copy, then assign the
  \<open>"variables"\<close> entry of the copy, and return the copy.
\<close>

definition with_variables :: "nat \<Rightarrow> pyval \<Rightarrow> store \<Rightarrow> nat \<times> store" where
  "with_variables self variables h =
     (let (modified, h1) = copy self h;
          h2 = h1[modified := setitem (h1 ! modified) ''variables'' variables]
      in (modified, h2))"

subsection \<open>WebsocketTopic\<close>

text \<open>
  A topic holds its string key (the field \<open>id\<close>) and its handler \<open>process\<close>. The
  handler is an opaque value of type \<open>'h\<close>.
\<close>

record 'h WebsocketTopic =
  topic_id :: string
  process :: 'h

text \<open>\<open>WebsocketTopic.__str__\<close>.\<close>

definition topic_str :: "'h WebsocketTopic \<Rightarrow> string" where
  "topic_str t = topic_id t"

text \<open>
  The right operand of \<open>__eq__\<close>: a string, another topic, or a value of any other
  type. \<open>__eq__\<close> returns \<open>None\<close> for Python's \<open>NotImplemented\<close>.
\<close>

datatype 'h operand = OStr string | OTopic "'h WebsocketTopic" | OOther

fun topic_eq :: "'h WebsocketTopic \<Rightarrow> 'h operand \<Rightarrow> bool option" where
  "topic_eq t (OStr s) = Some (topic_id t = s)"
| "topic_eq t (OTopic u) = Some (topic_id t = topic_id u)"
| "topic_eq t OOther = None"

text \<open>\<open>WebsocketTopic.__hash__\<close>, over the interpreter's string hash \<open>str_hash\<close>.\<close>

definition topic_hash :: "(string \<Rightarrow> int) \<Rightarrow> 'h WebsocketTopic \<Rightarrow> int" where
  "topic_hash str_hash t = str_hash (topic_id t)"

text \<open>\<open>WEBSOCKET_TOPICS\<close> and \<open>get_topic\<close>; the target identifier is given as its decimal text.\<close>

definition WEBSOCKET_TOPICS :: "(string \<times> string) list" where
  "WEBSOCKET_TOPICS =
     [(''UserDrops'', ''user-drop-events''),
      (''UserStreamState'', ''stream-change-v1''),
      (''UserCommunityPoints'', ''community-points-user-v1''),
      (''Presence'', ''presence''),
      (''Notifications'', ''onsite-notifications''),
      (''ChannelDrops'', ''channel-drop-events''),
      (''ChannelStreamState'', ''stream-change-by-channel''),
      (''ChannelCommunityPoints'', ''community-points-channel-v1''),
      (''VideoPlayback'', ''video-playback-by-id''),
      (''StreamUpdate'', ''broadcast-settings-update'')]"

definition get_topic :: "string \<Rightarrow> string \<Rightarrow> 'h \<Rightarrow> error + 'h WebsocketTopic" where
  "get_topic topic_name target_id proc =
     (case map_of WEBSOCKET_TOPICS topic_name of
        None \<Rightarrow> Inl KeyError
      | Some prefix \<Rightarrow> Inr \<lparr>topic_id = prefix @ ''.'' @ target_id, process = proc\<rparr>)"

section \<open>websocket.py\<close>

subsection \<open>Sets of topics\<close>

text \<open>
  A Python set of topics holds at most one topic for each key, since membership is
  decided by \<open>__hash__\<close> and \<open>__eq__\<close>. It is a list without repeated keys; adding a
  topic whose key is already present keeps the element that is there. The order
  of the list carries no meaning: Python fixes no iteration order for a set (it
  follows the hashes of the keys, which change from run to run), so code that
  iterates a set and keeps the order takes that order as an argument.
\<close>

definition contains :: "'h WebsocketTopic list \<Rightarrow> 'h WebsocketTopic \<Rightarrow> bool" where
  "contains ts t = list_ex (\<lambda>u. topic_eq u (OTopic t) = Some True) ts"

definition set_add :: "'h WebsocketTopic list \<Rightarrow> 'h WebsocketTopic \<Rightarrow> 'h WebsocketTopic list" where
  "set_add ts t = (if contains ts t then ts else ts @ [t])"

text \<open>\<open>set(topics)\<close>, \<open>a.difference_update(b)\<close> and \<open>a.update(b)\<close>.\<close>

definition set_of :: "'h WebsocketTopic list \<Rightarrow> 'h WebsocketTopic list" where
  "set_of ts = foldl set_add [] ts"

definition difference_update ::
  "'h WebsocketTopic list \<Rightarrow> 'h WebsocketTopic list \<Rightarrow> 'h WebsocketTopic list" where
  "difference_update a b = filter (\<lambda>t. \<not> contains b t) a"

definition update :: "'h WebsocketTopic list \<Rightarrow> 'h WebsocketTopic list \<Rightarrow> 'h WebsocketTopic list" where
  "update a b = foldl set_add a b"

subsection \<open>The Websocket object\<close>

text \<open>The state of an \<open>asyncio.Future\<close>.\<close>

datatype fstate = Pending | Finished pyval | Cancelled

datatype task_event = TaskCreated nat | TaskCancelled nat

text \<open>
  The fields of \<open>Websocket\<close>. \<open>futures\<close> lists the state of every future created
  so far; a future is referred to by its position, and \<open>recv_dict\<close> maps a nonce to
  such a reference. \<open>ping_task\<close> refers to a task; \<open>task_log\<close> records each
  \<open>asyncio.create_task\<close> and each \<open>cancel()\<close> made by the object. \<open>sent\<close> lists the messages handed to \<open>websocket.send\<close>, oldest
  first, as they are before \<open>json.dumps\<close>; \<open>calls\<close> lists the handler invocations
  \<open>topic.process(payload)\<close>, oldest first.
\<close>

record 'h Websocket =
  connected :: bool
  reconnect :: bool
  send_queue :: "(string \<times> pyval) list"
  recv_dict :: "(string \<times> nat) list"
  futures :: "fstate list"
  topics :: "'h WebsocketTopic list"
  ping_task :: "nat option"
  next_task :: nat
  task_log :: "task_event list"
  sent :: "pyval list"
  calls :: "('h \<times> pyval) list"

text \<open>\<open>Websocket.__init__\<close>.\<close>

definition Websocket_init :: "'h Websocket" where
  "Websocket_init =
     \<lparr>connected = False, reconnect = False, send_queue = [], recv_dict = [],
      futures = [], topics = [], ping_task = None,
      next_task = 0, task_log = [], sent = [], calls = []\<rparr>"

text \<open>
  \<open>Websocket.send(message)\<close>. The nonce of a request other than a PING comes from
  \<open>create_nonce\<close>, which draws it at random: it is the argument \<open>fresh_nonce\<close>. The
  result is the new future.
\<close>

definition send :: "string \<Rightarrow> pyval \<Rightarrow> 'h Websocket \<Rightarrow> error + (nat \<times> 'h Websocket)" where
  "send fresh_nonce message s =
     (case getitem message ''type'' of
        Inl e \<Rightarrow> Inl e
      | Inr msg_type \<Rightarrow>
          (let nonce = (if msg_type = PStr ''PING'' then ''PING'' else fresh_nonce);
               future = length (futures s)
           in Inr (future,
                   s\<lparr>send_queue := send_queue s @ [(nonce, message)],
                     futures := futures s @ [Pending],
                     recv_dict := setitem (recv_dict s) nonce future\<rparr>)))"

subsection \<open>add_topics\<close>

text \<open>
  Where the coroutine \<open>add_topics\<close> stands when control leaves it: it has returned, it
  is suspended at \<open>await self.connected.wait()\<close> holding its local set of new topics,
  or it is suspended awaiting the future that \<open>send\<close> returned.
\<close>

datatype 'h add_state =
    Returned
  | AtConnectedWait "'h WebsocketTopic list"
  | AtReplyWait nat

text \<open>
  Lines 172 to 184: what \<open>add_topics\<close> does once \<open>connected.wait()\<close> has returned.
  \<open>access_token\<close> is \<open>self._twitch._access_token\<close>. \<open>iteration\<close> gives the order
  in which the interpreter iterates a set of topics: \<open>list(map(str, topics))\<close> lists
  the keys of the local set in that order.
\<close>

definition add_topics_listen ::
  "('h WebsocketTopic list \<Rightarrow> 'h WebsocketTopic list) \<Rightarrow> string option \<Rightarrow> string
     \<Rightarrow> 'h WebsocketTopic list \<Rightarrow> 'h Websocket
     \<Rightarrow> (error \<times> 'h Websocket) + ('h add_state \<times> 'h Websocket)" where
  "add_topics_listen iteration access_token fresh_nonce new s =
     (case access_token of
        None \<Rightarrow> Inl (AssertionError, s)
      | Some auth_token \<Rightarrow>
          (let topics_list = map topic_str (iteration new)
           in case send fresh_nonce
                     (PDict [(''type'', PStr ''LISTEN''),
                             (''data'', PDict [(''topics'', PList (map PStr topics_list)),
                                               (''auth_token'', PStr auth_token)])]) s of
                Inl e \<Rightarrow> Inl (e, s)
              | Inr (future, s') \<Rightarrow> Inr (AtReplyWait future, s')))"

text \<open>
  \<open>Websocket.add_topics(topics)\<close>, run until it returns, raises or suspends. When
  \<open>connected\<close> is set, \<open>connected.wait()\<close> returns at once and the call goes on to
  \<open>send\<close>.
\<close>

definition add_topics ::
  "('h WebsocketTopic list \<Rightarrow> 'h WebsocketTopic list) \<Rightarrow> string option \<Rightarrow> string
     \<Rightarrow> 'h WebsocketTopic list \<Rightarrow> 'h Websocket
     \<Rightarrow> (error \<times> 'h Websocket) + ('h add_state \<times> 'h Websocket)" where
  "add_topics iteration access_token fresh_nonce topics0 s =
     (let new = difference_update (set_of topics0) (topics s)
      in if new = [] then Inr (Returned, s)
         else
           (let s1 = s\<lparr>topics := update (topics s) new\<rparr>
            in if length (topics s1) \<ge> 50
               then Inl (MinerException ''Too many topics'', s1)
               else if \<not> connected s1 then Inr (AtConnectedWait new, s1)
               else add_topics_listen iteration access_token fresh_nonce new s1))"

subsection \<open>Routing one inbound frame\<close>

text \<open>
  \<open>d.pop(key)\<close> on a dictionary with string keys, for a key taken from a decoded
  frame: a list or a dictionary is unhashable, and a value that is no string is
  equal to no key.
\<close>

fun dict_pop :: "(string \<times> 'v) list \<Rightarrow> pyval \<Rightarrow> error + ('v \<times> (string \<times> 'v) list)" where
  "dict_pop d (PStr k) =
     (case map_of d k of
        None \<Rightarrow> Inl KeyError
      | Some v \<Rightarrow> Inr (v, AList.delete k d))"
| "dict_pop d (PList xs) = Inl TypeError"
| "dict_pop d (PDict kvs) = Inl TypeError"
| "dict_pop d _ = Inl KeyError"

text \<open>
  \<open>target_topic == topic\<close> with a decoded value on the left: for a string the
  comparison is \<open>topic.__eq__(target_topic)\<close>; for any other value both sides answer
  \<open>NotImplemented\<close> and the result is \<open>False\<close>.
\<close>

fun value_eq_topic :: "pyval \<Rightarrow> 'h WebsocketTopic \<Rightarrow> bool" where
  "value_eq_topic (PStr k) t = (topic_eq t (OStr k) = Some True)"
| "value_eq_topic _ t = False"

text \<open>\<open>not future.done()\<close>.\<close>

definition pending :: "fstate list \<Rightarrow> nat \<Rightarrow> bool" where
  "pending fs future = (future < length fs \<and> fs ! future = Pending)"

text \<open>The \<open>PONG\<close> branch (lines 73 to 75).\<close>

definition route_pong :: "pyval \<Rightarrow> 'h Websocket \<Rightarrow> 'h Websocket result" where
  "route_pong message s =
     (case map_of (recv_dict s) ''PING'' of
        None \<Rightarrow> Inr s
      | Some ping_future \<Rightarrow>
          (let s1 = s\<lparr>recv_dict := AList.delete ''PING'' (recv_dict s)\<rparr>
           in if pending (futures s1) ping_future
              then Inr (s1\<lparr>futures := (futures s1)[ping_future := Finished message]\<rparr>)
              else Inr s1))"

text \<open>
  The \<open>RESPONSE\<close> branch (line 77): \<open>pop\<close> has no default, and \<open>set_result\<close> raises
  on a future that is already done.
\<close>

definition route_response :: "pyval \<Rightarrow> 'h Websocket \<Rightarrow> 'h Websocket result" where
  "route_response message s =
     (case getitem message ''nonce'' of
        Inl e \<Rightarrow> Inl (e, s)
      | Inr nonce \<Rightarrow>
          (case dict_pop (recv_dict s) nonce of
             Inl e \<Rightarrow> Inl (e, s)
           | Inr (future, rest) \<Rightarrow>
               (let s1 = s\<lparr>recv_dict := rest\<rparr>
                in if pending (futures s1) future
                   then Inr (s1\<lparr>futures := (futures s1)[future := Finished message]\<rparr>)
                   else Inl (InvalidStateError, s1))))"

text \<open>
  The \<open>MESSAGE\<close> branch (lines 84 to 88). \<open>loads\<close> is \<open>json.loads\<close>, with \<open>None\<close> for
  \<open>JSONDecodeError\<close>. The loop over the held topics stops at the first topic equal
  to the target; \<open>message["data"]["message"]\<close> is evaluated only then.
\<close>

definition route_message ::
  "(string \<Rightarrow> pyval option) \<Rightarrow> pyval \<Rightarrow> 'h Websocket \<Rightarrow> 'h Websocket result" where
  "route_message loads message s =
     (case getitem message ''data'' of
        Inl e \<Rightarrow> Inl (e, s)
      | Inr data \<Rightarrow>
          (case getitem data ''topic'' of
             Inl e \<Rightarrow> Inl (e, s)
           | Inr target_topic \<Rightarrow>
               (case find (value_eq_topic target_topic) (topics s) of
                  None \<Rightarrow> Inr s
                | Some topic \<Rightarrow>
                    (case getitem data ''message'' of
                       Inl e \<Rightarrow> Inl (e, s)
                     | Inr (PStr text) \<Rightarrow>
                         (case loads text of
                            None \<Rightarrow> Inl (JSONDecodeError, s)
                          | Some payload \<Rightarrow>
                              Inr (s\<lparr>calls := calls s @ [(process topic, payload)]\<rparr>))
                     | Inr _ \<Rightarrow> Inl (TypeError, s)))))"

text \<open>Lines 68 to 90: decode the raw frame and branch on its type.\<close>

definition route :: "(string \<Rightarrow> pyval option) \<Rightarrow> string \<Rightarrow> 'h Websocket \<Rightarrow> 'h Websocket result" where
  "route loads raw_message s =
     (case loads raw_message of
        None \<Rightarrow> Inl (JSONDecodeError, s)
      | Some message \<Rightarrow>
          (case getitem message ''type'' of
             Inl e \<Rightarrow> Inl (e, s)
           | Inr msg_type \<Rightarrow>
               if msg_type = PStr ''PONG'' then route_pong message s
               else if msg_type = PStr ''RESPONSE'' then route_response message s
               else if msg_type = PStr ''RECONNECT'' then Inr (s\<lparr>reconnect := True\<rparr>)
               else if msg_type = PStr ''MESSAGE'' then route_message loads message s
               else Inr s))"

subsection \<open>The connection loop\<close>

text \<open>
  Lines 99 and 100: a request other than the PING gets its nonce as the entry
  \<open>"nonce"\<close>; the assignment raises on a message that is no dictionary.
\<close>

definition stamp :: "string \<Rightarrow> pyval \<Rightarrow> error + pyval" where
  "stamp nonce message =
     (if nonce \<noteq> ''PING''
      then (case message of
              PDict kvs \<Rightarrow> Inr (PDict (setitem kvs ''nonce'' (PStr nonce)))
            | _ \<Rightarrow> Inl TypeError)
      else Inr message)"

text \<open>
  Lines 97 to 102: send every queued request, stamped. The recursion is over the
  queue that remains.
\<close>

fun drain :: "(string \<times> pyval) list \<Rightarrow> 'h Websocket \<Rightarrow> 'h Websocket result" where
  "drain [] s = Inr (s\<lparr>send_queue := []\<rparr>)"
| "drain ((nonce, message) # q) s =
     (let s1 = s\<lparr>send_queue := q\<rparr>
      in case stamp nonce message of
           Inl e \<Rightarrow> Inl (e, s1)
         | Inr frame \<Rightarrow> drain q (s1\<lparr>sent := sent s1 @ [frame]\<rparr>))"

definition process_send :: "'h Websocket \<Rightarrow> 'h Websocket result" where
  "process_send s = drain (send_queue s) s"

text \<open>
  What \<open>websocket.recv()\<close> gives within the half second: nothing, a raw frame, or
  \<open>ConnectionClosed\<close> (\<open>ClosedOK rcvd_then_sent\<close> for \<open>ConnectionClosedOK\<close>).
\<close>

datatype closed = ClosedOK bool | ClosedError

datatype recv = Nothing | Frame string | Closed closed

text \<open>How an iteration of the pump leaves: on to the next iteration, on to the next
  connection (\<open>continue\<close> of the outer loop), or out of \<open>connect\<close> (\<open>break\<close>).\<close>

datatype next_step = KeepPumping | Reconnect | Exit

text \<open>Lines 51 to 56: a new connection has been opened.\<close>

definition on_open :: "'h Websocket \<Rightarrow> 'h Websocket" where
  "on_open s =
     s\<lparr>reconnect := False,
       connected := True,
       ping_task := Some (next_task s),
       next_task := Suc (next_task s),
       task_log := task_log s @ [TaskCreated (next_task s)]\<rparr>"

text \<open>Lines 105 to 119: \<open>except ConnectionClosed\<close>.\<close>

definition on_closed :: "closed \<Rightarrow> 'h Websocket \<Rightarrow> next_step \<times> 'h Websocket" where
  "on_closed exc s =
     (let s1 = s\<lparr>connected := False\<rparr>;
          s2 = (case ping_task s1 of
                  None \<Rightarrow> s1
                | Some task \<Rightarrow> s1\<lparr>task_log := task_log s1 @ [TaskCancelled task],
                                  ping_task := None\<rparr>)
      in case exc of
           ClosedOK rcvd_then_sent \<Rightarrow> (if rcvd_then_sent then (Reconnect, s2) else (Exit, s2))
         | ClosedError \<Rightarrow> (Reconnect, s2))"

text \<open>
  An iteration of the inner \<open>while\<close> from the moment the wait for \<open>recv\<close> has ended
  (lines 63 to 102), with the handlers of lines 105 to 122: any other exception is
  logged and the outer loop goes on to the next connection. \<open>s\<close> is the object at
  that moment.
\<close>

definition pump_body ::
  "(string \<Rightarrow> pyval option) \<Rightarrow> recv \<Rightarrow> 'h Websocket \<Rightarrow> next_step \<times> 'h Websocket" where
  "pump_body loads ev s =
     (case ev of
        Closed exc \<Rightarrow> on_closed exc s
      | _ \<Rightarrow>
          (case (case ev of Frame raw_message \<Rightarrow> route loads raw_message s | _ \<Rightarrow> Inr s) of
             Inl (e, s1) \<Rightarrow> (Reconnect, s1)
           | Inr s1 \<Rightarrow>
               if reconnect s1 then (Reconnect, s1)
               else (case process_send s1 of
                       Inl (e, s2) \<Rightarrow> (Reconnect, s2)
                     | Inr s2 \<Rightarrow> (KeepPumping, s2))))"

text \<open>
  One whole iteration of the inner \<open>while\<close> (lines 60 to 102). The pump is
  suspended in \<open>wait_for(websocket.recv(), timeout=0.5)\<close> while the other tasks
  run, among them the ping loop and the callers of \<open>add_topics\<close> and \<open>send\<close>:
  \<open>others\<close> is what they do to the object during that wait, \<open>ev\<close> is what \<open>recv\<close>
  gives at its end. The other tasks act during this wait only.
\<close>

definition pump_iteration ::
  "(string \<Rightarrow> pyval option) \<Rightarrow> ('h Websocket \<Rightarrow> 'h Websocket) \<times> recv \<Rightarrow> 'h Websocket
     \<Rightarrow> next_step \<times> 'h Websocket" where
  "pump_iteration loads step s = pump_body loads (snd step) ((fst step) s)"

text \<open>
  The inner \<open>while not self.reconnect.is_set()\<close>, over the iterations; with none
  left the pump is still running.
\<close>

fun pump ::
  "(string \<Rightarrow> pyval option) \<Rightarrow> (('h Websocket \<Rightarrow> 'h Websocket) \<times> recv) list \<Rightarrow> 'h Websocket
     \<Rightarrow> next_step \<times> 'h Websocket" where
  "pump loads [] s = (KeepPumping, s)"
| "pump loads (step # steps) s =
     (if reconnect s then (Reconnect, s)
      else (case pump_iteration loads step s of
              (KeepPumping, s1) \<Rightarrow> pump loads steps s1
            | r \<Rightarrow> r))"

text \<open>
  The outer loop (line 50) over successive connections, each with the iterations
  of its pump. The loop itself calls neither \<open>add_topics\<close> nor \<open>send\<close>: the one call
  of \<open>add_topics\<close> in \<open>connect\<close> (lines 43 to 48) is made before the loop is entered.
\<close>

fun connect_loop ::
  "(string \<Rightarrow> pyval option) \<Rightarrow> (('h Websocket \<Rightarrow> 'h Websocket) \<times> recv) list list
     \<Rightarrow> 'h Websocket \<Rightarrow> 'h Websocket" where
  "connect_loop loads [] s = s"
| "connect_loop loads (steps # conns) s =
     (case pump loads steps (on_open s) of
        (Reconnect, s1) \<Rightarrow> connect_loop loads conns s1
      | (_, s1) \<Rightarrow> s1)"

subsection \<open>The ping loop\<close>

text \<open>
  One cycle of \<open>_ping_loop\<close> suspends at \<open>wait_for\<close> and, after a reply, at \<open>sleep\<close>.
  \<open>Replied others\<close> says that the future was resolved within the ten seconds,
  \<open>NoReply others\<close> that it was not; \<open>others\<close> is what the other tasks did to the
  object while the loop was suspended in that cycle. On a timeout \<open>wait_for\<close>
  cancels the future before \<open>TimeoutError\<close> reaches the handler.
\<close>

datatype 'h waited =
    Replied "'h Websocket \<Rightarrow> 'h Websocket"
  | NoReply "'h Websocket \<Rightarrow> 'h Websocket"

datatype ping_status = Running | Ended | Failed error

text \<open>
  Lines 134 to 142, from the loop test on; the list gives the outcome of each
  cycle, and with no outcome left the loop is still running.
\<close>

fun ping_loop :: "'h waited list \<Rightarrow> 'h Websocket \<Rightarrow> ping_status \<times> 'h Websocket" where
  "ping_loop [] s = (Running, s)"
| "ping_loop (w # ws) s =
     (if \<not> connected s then (Ended, s)
      else (case send [] (PDict [(''type'', PStr ''PING'')]) s of
              Inl e \<Rightarrow> (Failed e, s)
            | Inr (future, s1) \<Rightarrow>
                (case w of
                   NoReply others \<Rightarrow>
                     (let s2 = others s1;
                          s3 = (if pending (futures s2) future
                                then s2\<lparr>futures := (futures s2)[future := Cancelled]\<rparr>
                                else s2)
                      in (Ended, s3\<lparr>reconnect := True\<rparr>))
                 | Replied others \<Rightarrow> ping_loop ws (others s1))))"

text \<open>
  Lines 132 to 136: what a ping task does from its start until it is suspended in
  \<open>wait_for\<close>. It goes on only when \<open>connected\<close> is set, and then queues its first
  PING.
\<close>

definition ping_begin :: "'h Websocket \<Rightarrow> 'h Websocket" where
  "ping_begin s =
     (if \<not> connected s then s
      else (case send [] (PDict [(''type'', PStr ''PING'')]) s of
              Inl e \<Rightarrow> s
            | Inr (future, s1) \<Rightarrow> s1))"

section \<open>twitch.py\<close>

text \<open>
  The classes \<open>Channel\<close> and \<open>Stream\<close> are declared outside these sources; the
  records hold the fields that \<open>Twitch\<close> reads. A game is identified by its name.
\<close>

record stream_info =
  drops_enabled :: bool
  game :: string
  viewer_count :: int

record channel =
  channel_id :: int
  name :: string
  stream :: "stream_info option"

datatype watch_event = WatcherCancelled nat | WatcherCreated nat int

text \<open>
  The fields of \<open>Twitch\<close> that the scheduler uses. \<open>channels\<close> is the dictionary from
  channel id to channel, in insertion order. \<open>watching_channel\<close> refers to the
  watched channel by its id; \<open>watching_task\<close> refers to the watcher task.
  \<open>watch_log\<close> records each cancellation of a watcher task and each creation of
  one (with the id of the channel it watches), oldest first.
\<close>

record Twitch =
  channels :: "(int \<times> channel) list"
  watching_channel :: "int option"
  watching_task :: "nat option"
  channel_change :: bool
  next_watcher :: nat
  watch_log :: "watch_event list"

text \<open>Line 106: \<open>self.channels[channel.id] = channel\<close>.\<close>

definition track_channel :: "channel \<Rightarrow> Twitch \<Rightarrow> Twitch" where
  "track_channel c t = t\<lparr>channels := AList.update (channel_id c) c (channels t)\<rparr>"

text \<open>\<open>Twitch.watch(channel)\<close>.\<close>

definition watch :: "channel \<Rightarrow> Twitch \<Rightarrow> Twitch" where
  "watch c t =
     (let t1 = (case watching_task t of
                  None \<Rightarrow> t
                | Some task \<Rightarrow> t\<lparr>watch_log := watch_log t @ [WatcherCancelled task]\<rparr>)
      in t1\<lparr>watching_channel := Some (channel_id c),
            watching_task := Some (next_watcher t1),
            next_watcher := Suc (next_watcher t1),
            watch_log := watch_log t1 @ [WatcherCreated (next_watcher t1) (channel_id c)]\<rparr>)"

text \<open>\<open>Twitch.stop_watching()\<close>.\<close>

definition stop_watching :: "Twitch \<Rightarrow> Twitch" where
  "stop_watching t =
     (let t1 = (case watching_task t of
                  None \<Rightarrow> t
                | Some task \<Rightarrow> t\<lparr>watch_log := watch_log t @ [WatcherCancelled task],
                                 watching_task := None\<rparr>)
      in t1\<lparr>watching_channel := None\<rparr>)"

text \<open>The condition of lines 124 to 128, for the set \<open>games\<close> collected from the inventory.\<close>

definition eligible :: "string set \<Rightarrow> channel \<Rightarrow> bool" where
  "eligible games c =
     (case stream c of
        None \<Rightarrow> False
      | Some st \<Rightarrow> drops_enabled st \<and> game st \<in> games)"

text \<open>How one iteration of the loop of \<open>run\<close> ends: still waiting for the change
  signal, with a channel watched, after a refresh of all channels, or after the
  sleep of 120 seconds.\<close>

datatype iteration = Blocked | Watched | Refreshed | Retried

text \<open>
  One iteration of \<open>while True\<close> in \<open>run\<close> (lines 120 to 145), on the local
  \<open>refresh_channels\<close> and the object. \<open>await self._channel_change.wait()\<close> returns
  only when the signal is set. \<open>get_stream\<close> is what \<open>Channel.get_stream\<close> finds for
  a channel; that method is declared outside these sources.
\<close>

definition run_iteration ::
  "(channel \<Rightarrow> stream_info option) \<Rightarrow> string set \<Rightarrow> bool \<times> Twitch
     \<Rightarrow> iteration \<times> bool \<times> Twitch" where
  "run_iteration get_stream games st =
     (let refresh_channels = fst st; t = snd st
      in if \<not> channel_change t then (Blocked, refresh_channels, t)
         else (case find (eligible games) (map snd (channels t)) of
                 Some c \<Rightarrow> (Watched, True, (watch c t)\<lparr>channel_change := False\<rparr>)
               | None \<Rightarrow>
                   if refresh_channels
                   then (Refreshed, False,
                         t\<lparr>channels :=
                             map (\<lambda>kc. (fst kc, (snd kc)\<lparr>stream := get_stream (snd kc)\<rparr>))
                               (channels t)\<rparr>)
                   else (Retried, refresh_channels, t)))"

section \<open>Example inputs\<close>

text \<open>The first \<open>n\<close> of sixty-four topics with the two-letter keys \<open>aa\<close>, \<open>ab\<close>, ..., \<open>hh\<close>.\<close>

definition lettered_topics :: "nat \<Rightarrow> unit WebsocketTopic list" where
  "lettered_topics n =
     take n (map (\<lambda>k. \<lparr>topic_id = k, process = ()\<rparr>)
               (concat (map (\<lambda>a. map (\<lambda>b. [a, b]) ''abcdefgh'') ''abcdefgh'')))"

text \<open>
  A push frame for the topic \<open>video-playback-by-id.42\<close>, as decoded, and a decoder
  that knows the raw frame \<open>frame\<close> and the inner text \<open>inner\<close> it carries.
\<close>

definition playback_frame :: pyval where
  "playback_frame =
     PDict [(''type'', PStr ''MESSAGE''),
            (''data'', PDict [(''topic'', PStr ''video-playback-by-id.42''),
                              (''message'', PStr ''inner'')])]"

definition playback_loads :: "string \<Rightarrow> pyval option" where
  "playback_loads =
     map_of [(''frame'', playback_frame),
             (''inner'', PDict [(''type'', PStr ''stream-down'')])]"

text \<open>A decoder that knows the raw frame \<open>reconnect\<close>, a reconnect request of the server.\<close>

definition reconnect_loads :: "string \<Rightarrow> pyval option" where
  "reconnect_loads = map_of [(''reconnect'', PDict [(''type'', PStr ''RECONNECT'')])]"

text \<open>
  Three channels tracked in this order: channel 1 is offline, channels 2 and 3 are
  online with drops enabled and play \<open>game\<close>. The change signal is set and no
  channel is watched yet.
\<close>

definition offline_channel :: channel where
  "offline_channel = \<lparr>channel_id = 1, name = ''first'', stream = None\<rparr>"

definition channel_A :: channel where
  "channel_A =
     \<lparr>channel_id = 2, name = ''A'',
      stream = Some \<lparr>drops_enabled = True, game = ''game'', viewer_count = 10\<rparr>\<rparr>"

definition channel_B :: channel where
  "channel_B =
     \<lparr>channel_id = 3, name = ''B'',
      stream = Some \<lparr>drops_enabled = True, game = ''game'', viewer_count = 99\<rparr>\<rparr>"

definition three_channels :: Twitch where
  "three_channels =
     track_channel channel_B (track_channel channel_A (track_channel offline_channel
       \<lparr>channels = [], watching_channel = None, watching_task = None,
        channel_change = True, next_watcher = 0, watch_log = []\<rparr>))"

section \<open>Properties of constants.py\<close>

text \<open>
  C9. Equality and hashing of topics depend on the string key alone: comparing a topic
  with another topic gives the comparison of their keys, whatever the handlers;
  comparing it with a bare string gives the comparison of its key with that string;
  and topics with equal keys have equal hashes.
\<close>

theorem topic_eq_hash_by_key:
  "topic_eq a (OTopic b) = Some (topic_id a = topic_id b)
   \<and> topic_eq a (OStr s) = Some (topic_id a = s)
   \<and> topic_eq a (OStr (topic_id a)) = Some True
   \<and> (topic_id a = topic_id b \<longrightarrow>
        topic_eq a (OTopic b) = Some True \<and> topic_hash H a = topic_hash H b)
   \<and> (topic_id a \<noteq> topic_id b \<longrightarrow> topic_eq a (OTopic b) = Some False)"
  by (simp add: topic_hash_def)

theorem topic_eq_hash_by_key_witness:
  "topic_id \<lparr>topic_id = ''video-playback-by-id.42'', process = (1::nat)\<rparr>
     = topic_id \<lparr>topic_id = ''video-playback-by-id.42'', process = (2::nat)\<rparr>
   \<and> topic_eq \<lparr>topic_id = ''video-playback-by-id.42'', process = (1::nat)\<rparr>
        (OTopic \<lparr>topic_id = ''video-playback-by-id.42'', process = 2\<rparr>) = Some True
   \<and> topic_hash (\<lambda>k. int (length k)) \<lparr>topic_id = ''video-playback-by-id.42'', process = (1::nat)\<rparr>
       = topic_hash (\<lambda>k. int (length k)) \<lparr>topic_id = ''video-playback-by-id.42'', process = (2::nat)\<rparr>
   \<and> topic_id \<lparr>topic_id = ''video-playback-by-id.42'', process = (1::nat)\<rparr>
       \<noteq> topic_id \<lparr>topic_id = ''video-playback-by-id.7'', process = (1::nat)\<rparr>
   \<and> topic_eq \<lparr>topic_id = ''video-playback-by-id.42'', process = (1::nat)\<rparr>
        (OTopic \<lparr>topic_id = ''video-playback-by-id.7'', process = 1\<rparr>) = Some False"
  using topic_eq_hash_by_key
          [of "\<lparr>topic_id = ''video-playback-by-id.42'', process = (1::nat)\<rparr>"
              "\<lparr>topic_id = ''video-playback-by-id.42'', process = 2\<rparr>" _ "\<lambda>k. int (length k)"]
        topic_eq_hash_by_key
          [of "\<lparr>topic_id = ''video-playback-by-id.42'', process = (1::nat)\<rparr>"
              "\<lparr>topic_id = ''video-playback-by-id.7'', process = 1\<rparr>" _ "\<lambda>k. int (length k)"]
  by simp

text \<open>
  C10. For every allocated operation \<open>op\<close> and every variables value \<open>v\<close>,
  \<open>op.with_variables(v)\<close> returns a new object, distinct from \<open>op\<close>, whose
  \<open>"variables"\<close> entry is \<open>v\<close> and which agrees with \<open>op\<close> on every other top-level
  key; \<open>op\<close> itself, like every other allocated object, has the same entries after
  the call as before.
\<close>

theorem with_variables_frame:
  assumes "self < length h"
      and "with_variables self v h = (modified, h')"
  shows "modified \<noteq> self
         \<and> modified < length h'
         \<and> map_of (h' ! modified) ''variables'' = Some v
         \<and> (\<forall>k. k \<noteq> ''variables'' \<longrightarrow> map_of (h' ! modified) k = map_of (h ! self) k)
         \<and> h' ! self = h ! self
         \<and> (\<forall>a. a < length h \<longrightarrow> h' ! a = h ! a)"
proof -
  from assms(2) have m: "modified = length h"
    and h': "h' = (h @ [h ! self])[length h := setitem (h ! self) ''variables'' v]"
    by (auto simp: with_variables_def copy_def alloc_def Let_def)
  from assms(1) m have ne: "modified \<noteq> self" by simp
  from m h' have len: "modified < length h'" by simp
  have own: "h' ! modified = setitem (h ! self) ''variables'' v"
    by (simp add: h' m)
  have var: "map_of (h' ! modified) ''variables'' = Some v"
    by (simp add: own setitem_def update_conv')
  have others: "\<forall>k. k \<noteq> ''variables'' \<longrightarrow> map_of (h' ! modified) k = map_of (h ! self) k"
    by (simp add: own setitem_def update_conv')
  have frame: "\<forall>a. a < length h \<longrightarrow> h' ! a = h ! a"
    by (simp add: h' nth_append)
  from frame assms(1) have self_same: "h' ! self = h ! self" by simp
  from ne len var others self_same frame show ?thesis by blast
qed

theorem with_variables_frame_witness:
  "(0::nat) < length [GQLOperation_init ''ChannelPointsContext'' ''9988'' None]
   \<and> with_variables 0 (PDict [(''channelLogin'', PStr ''somebody'')])
        [GQLOperation_init ''ChannelPointsContext'' ''9988'' None]
      = (1, [GQLOperation_init ''ChannelPointsContext'' ''9988'' None,
             GQLOperation_init ''ChannelPointsContext'' ''9988''
               (Some (PDict [(''channelLogin'', PStr ''somebody'')]))])
   \<and> map_of (GQLOperation_init ''ChannelPointsContext'' ''9988''
                (Some (PDict [(''channelLogin'', PStr ''somebody'')]))) ''variables''
       = Some (PDict [(''channelLogin'', PStr ''somebody'')])
   \<and> map_of (GQLOperation_init ''ChannelPointsContext'' ''9988'' None) ''variables'' = None"
proof -
  let ?h = "[GQLOperation_init ''ChannelPointsContext'' ''9988'' None]"
  let ?v = "PDict [(''channelLogin'', PStr ''somebody'')]"
  let ?h' = "[GQLOperation_init ''ChannelPointsContext'' ''9988'' None,
              GQLOperation_init ''ChannelPointsContext'' ''9988'' (Some ?v)]"
  have a: "(0::nat) < length ?h" by simp
  have b: "with_variables 0 ?v ?h = (1, ?h')"
    by (simp add: with_variables_def copy_def alloc_def GQLOperation_init_def setitem_def Let_def)
  from with_variables_frame [OF a b] a b show ?thesis
    by (simp add: GQLOperation_init_def setitem_def)
qed

section \<open>Properties of websocket.py\<close>

subsection \<open>Sets of topics\<close>

lemma contains_iff: "contains ts t \<longleftrightarrow> topic_id t \<in> topic_id ` set ts"
  by (induction ts) (auto simp: contains_def)

lemma keys_foldl_set_add:
  "topic_id ` set (foldl set_add acc ts) = topic_id ` set acc \<union> topic_id ` set ts"
  by (induction ts arbitrary: acc) (auto simp: set_add_def contains_iff)

lemma distinct_foldl_set_add:
  "distinct (map topic_id acc) \<Longrightarrow> distinct (map topic_id (foldl set_add acc ts))"
  by (induction ts arbitrary: acc) (auto simp: set_add_def contains_iff)

lemma keys_filter_by_key:
  "topic_id ` set (filter (\<lambda>t. topic_id t \<notin> K) xs) = topic_id ` set xs - K"
  by (induction xs) auto

lemma keys_new_topics:
  "set (map topic_id (difference_update (set_of ts) held))
     = topic_id ` set ts - topic_id ` set held"
proof -
  have "set (map topic_id (difference_update (set_of ts) held))
          = topic_id ` set (filter (\<lambda>t. topic_id t \<notin> topic_id ` set held) (set_of ts))"
    by (simp add: difference_update_def contains_iff)
  also have "\<dots> = topic_id ` set (set_of ts) - topic_id ` set held"
    by (rule keys_filter_by_key)
  also have "topic_id ` set (set_of ts) = topic_id ` set ts"
    by (simp add: set_of_def keys_foldl_set_add)
  finally show ?thesis .
qed

lemma distinct_new_topics:
  "distinct (map topic_id (difference_update (set_of ts) held))"
proof -
  have "distinct (map topic_id (set_of ts))"
    by (simp add: set_of_def distinct_foldl_set_add)
  then show ?thesis
    by (simp add: difference_update_def distinct_map_filter)
qed

subsection \<open>add_topics\<close>

text \<open>
  The held set never holds two topics with one key: \<open>add_topics\<close> keeps the keys
  of the held topics distinct, however it ends.
\<close>

lemma add_topics_keeps_keys_distinct:
  assumes "distinct (map topic_id (topics s))"
      and "add_topics iteration access_token nonce ts s = Inl (e, s')
           \<or> add_topics iteration access_token nonce ts s = Inr (st, s')"
  shows "distinct (map topic_id (topics s'))"
proof -
  let ?new = "difference_update (set_of ts) (topics s)"
  have u: "distinct (map topic_id (update (topics s) ?new))"
    using assms(1) by (simp add: update_def distinct_foldl_set_add)
  have "topics s' = topics s \<or> topics s' = update (topics s) ?new"
    using assms(2)
    by (auto simp: add_topics_def add_topics_listen_def send_def Let_def
             split: if_splits option.splits sum.splits)
  with assms(1) u show ?thesis by auto
qed

text \<open>
  C1, at a failing input. On a connected object holding no topic, \<open>add_topics\<close> with
  51 topics of distinct keys raises \<open>MinerException\<close>, and the held set is then the 51
  topics: the update of line 167 precedes the test of line 168. With 50 topics, a
  union that does not exceed 50, the call raises as well, since the test is
  \<open>len(self._topics) >= 50\<close>. The order of iteration plays no part.
\<close>

theorem add_topics_raises_after_update:
  "add_topics iteration (Some ''token'') ''nonce'' (lettered_topics 51) (on_open Websocket_init)
     = Inl (MinerException ''Too many topics'',
            (on_open Websocket_init)\<lparr>topics := lettered_topics 51\<rparr>)
   \<and> length (lettered_topics 51) = 51
   \<and> add_topics iteration (Some ''token'') ''nonce'' (lettered_topics 50) (on_open Websocket_init)
     = Inl (MinerException ''Too many topics'',
            (on_open Websocket_init)\<lparr>topics := lettered_topics 50\<rparr>)
   \<and> length (lettered_topics 50) = 50"
  by code_simp

text \<open>
  C2 as stated fails: on a connected object holding the topic \<open>a\<close>, adding the topic
  \<open>b\<close> leaves the set \<open>{a, b}\<close> held and queues one LISTEN request whose topic list
  is \<open>["b"]\<close>, not the full membership \<open>["a", "b"]\<close>. The set of new topics has one
  member, so its iteration has one order.
\<close>

theorem listen_omits_held_topics:
  "add_topics rev (Some ''token'') ''nonce'' [\<lparr>topic_id = ''b'', process = ()\<rparr>]
     ((on_open Websocket_init)\<lparr>topics := [\<lparr>topic_id = ''a'', process = ()\<rparr>]\<rparr>)
   = Inr (AtReplyWait 0,
          (on_open Websocket_init)
            \<lparr>topics := [\<lparr>topic_id = ''a'', process = ()\<rparr>, \<lparr>topic_id = ''b'', process = ()\<rparr>],
             send_queue :=
               [(''nonce'', PDict [(''type'', PStr ''LISTEN''),
                                   (''data'', PDict [(''topics'', PList [PStr ''b'']),
                                                     (''auth_token'', PStr ''token'')])])],
             futures := [Pending],
             recv_dict := [(''nonce'', 0)]\<rparr>)"
  by (simp add: add_topics_def add_topics_listen_def send_def topic_str_def Let_def
        set_of_def difference_update_def update_def set_add_def contains_def
        on_open_def Websocket_init_def setitem_def)

text \<open>
  C2, amended. Let \<open>new\<close>, the topics passed that are not yet held, be non-empty and
  let the updated set have fewer than 50 members; let the interpreter iterate the
  set \<open>new\<close> in the order \<open>iteration new\<close>, some arrangement of its members. If the
  connection is up, \<open>add_topics\<close> commits the union and queues exactly one LISTEN
  request; if it is not, \<open>add_topics\<close> commits the union and waits, and what it
  does once the wait has returned, on the object as it is then, is to queue
  exactly one LISTEN request. In both cases the request carries the keys of the
  newly added topics only, in the order of iteration and each once, and the
  access token; these keys are the keys passed minus the keys held before.
\<close>

theorem add_topics_listens_new_topics:
  assumes "difference_update (set_of ts) (topics s) = new"
      and "new \<noteq> []"
      and "length (update (topics s) new) < 50"
      and "mset (iteration new) = mset new"
  shows "(connected s \<longrightarrow>
            add_topics iteration (Some tok) nonce ts s
              = Inr (AtReplyWait (length (futures s)),
                     s\<lparr>topics := update (topics s) new,
                       send_queue := send_queue s @
                         [(nonce, PDict [(''type'', PStr ''LISTEN''),
                                         (''data'',
                                          PDict [(''topics'',
                                                  PList (map PStr (map topic_id (iteration new)))),
                                                 (''auth_token'', PStr tok)])])],
                       futures := futures s @ [Pending],
                       recv_dict := setitem (recv_dict s) nonce (length (futures s))\<rparr>))
         \<and> (\<not> connected s \<longrightarrow>
              add_topics iteration (Some tok) nonce ts s
                = Inr (AtConnectedWait new, s\<lparr>topics := update (topics s) new\<rparr>))
         \<and> add_topics_listen iteration (Some tok) nonce new later
             = Inr (AtReplyWait (length (futures later)),
                    later\<lparr>send_queue := send_queue later @
                            [(nonce, PDict [(''type'', PStr ''LISTEN''),
                                            (''data'',
                                             PDict [(''topics'',
                                                     PList (map PStr (map topic_id (iteration new)))),
                                                    (''auth_token'', PStr tok)])])],
                          futures := futures later @ [Pending],
                          recv_dict := setitem (recv_dict later) nonce (length (futures later))\<rparr>)
         \<and> mset (map topic_id (iteration new)) = mset (map topic_id new)
         \<and> set (map topic_id (iteration new)) = topic_id ` set ts - topic_id ` set (topics s)
         \<and> distinct (map topic_id (iteration new))"
proof -
  have listen: "add_topics_listen iteration (Some tok) nonce new st
             = Inr (AtReplyWait (length (futures st)),
                    st\<lparr>send_queue := send_queue st @
                         [(nonce, PDict [(''type'', PStr ''LISTEN''),
                                         (''data'',
                                          PDict [(''topics'',
                                                  PList (map PStr (map topic_id (iteration new)))),
                                                 (''auth_token'', PStr tok)])])],
                       futures := futures st @ [Pending],
                       recv_dict := setitem (recv_dict st) nonce (length (futures st))\<rparr>)"
    for st :: "'a Websocket"
    by (simp add: add_topics_listen_def send_def topic_str_def Let_def comp_def)
  have up: "connected s \<longrightarrow>
            add_topics iteration (Some tok) nonce ts s
              = Inr (AtReplyWait (length (futures s)),
                     s\<lparr>topics := update (topics s) new,
                       send_queue := send_queue s @
                         [(nonce, PDict [(''type'', PStr ''LISTEN''),
                                         (''data'',
                                          PDict [(''topics'',
                                                  PList (map PStr (map topic_id (iteration new)))),
                                                 (''auth_token'', PStr tok)])])],
                       futures := futures s @ [Pending],
                       recv_dict := setitem (recv_dict s) nonce (length (futures s))\<rparr>)"
    using assms(1,2,3) by (simp add: add_topics_def listen Let_def)
  have down: "\<not> connected s \<longrightarrow>
              add_topics iteration (Some tok) nonce ts s
                = Inr (AtConnectedWait new, s\<lparr>topics := update (topics s) new\<rparr>)"
    using assms(1,2,3) by (simp add: add_topics_def Let_def)
  from assms(4) have perm: "mset (map topic_id (iteration new)) = mset (map topic_id new)"
    by (metis mset_map)
  from assms(1) have "set (map topic_id new) = topic_id ` set ts - topic_id ` set (topics s)"
    using keys_new_topics [of ts "topics s"] by simp
  with perm have keys:
    "set (map topic_id (iteration new)) = topic_id ` set ts - topic_id ` set (topics s)"
    by (metis mset_eq_setD)
  from assms(1) have "distinct (map topic_id new)"
    using distinct_new_topics [of ts "topics s"] by simp
  with perm have dist: "distinct (map topic_id (iteration new))"
    by (metis mset_eq_imp_distinct_iff)
  from up down listen [of later] perm keys dist show ?thesis
    by (intro conjI)
qed

theorem add_topics_listens_new_topics_witness:
  "connected ((on_open Websocket_init)\<lparr>topics := [\<lparr>topic_id = ''a'', process = ()\<rparr>]\<rparr>)
   \<and> difference_update
        (set_of [\<lparr>topic_id = ''b'', process = ()\<rparr>, \<lparr>topic_id = ''a'', process = ()\<rparr>,
                 \<lparr>topic_id = ''b'', process = ()\<rparr>, \<lparr>topic_id = ''c'', process = ()\<rparr>])
        [\<lparr>topic_id = ''a'', process = ()\<rparr>]
       = [\<lparr>topic_id = ''b'', process = ()\<rparr>, \<lparr>topic_id = ''c'', process = ()\<rparr>]
   \<and> mset (rev [\<lparr>topic_id = ''b'', process = ()\<rparr>, \<lparr>topic_id = ''c'', process = ()\<rparr>])
       = mset [\<lparr>topic_id = ''b'', process = ()\<rparr>, \<lparr>topic_id = ''c'', process = ()\<rparr>]
   \<and> add_topics rev (Some ''token'') ''nonce''
        [\<lparr>topic_id = ''b'', process = ()\<rparr>, \<lparr>topic_id = ''a'', process = ()\<rparr>,
         \<lparr>topic_id = ''b'', process = ()\<rparr>, \<lparr>topic_id = ''c'', process = ()\<rparr>]
        ((on_open Websocket_init)\<lparr>topics := [\<lparr>topic_id = ''a'', process = ()\<rparr>]\<rparr>)
      = Inr (AtReplyWait 0,
             (on_open Websocket_init)
               \<lparr>topics := [\<lparr>topic_id = ''a'', process = ()\<rparr>, \<lparr>topic_id = ''b'', process = ()\<rparr>,
                           \<lparr>topic_id = ''c'', process = ()\<rparr>],
                send_queue :=
                  [(''nonce'', PDict [(''type'', PStr ''LISTEN''),
                                      (''data'', PDict [(''topics'', PList [PStr ''c'', PStr ''b'']),
                                                        (''auth_token'', PStr ''token'')])])],
                futures := [Pending],
                recv_dict := [(''nonce'', 0)]\<rparr>)
   \<and> \<not> connected (Websocket_init\<lparr>topics := [\<lparr>topic_id = ''a'', process = ()\<rparr>]\<rparr>)
   \<and> add_topics rev (Some ''token'') ''nonce''
        [\<lparr>topic_id = ''b'', process = ()\<rparr>, \<lparr>topic_id = ''a'', process = ()\<rparr>,
         \<lparr>topic_id = ''b'', process = ()\<rparr>, \<lparr>topic_id = ''c'', process = ()\<rparr>]
        (Websocket_init\<lparr>topics := [\<lparr>topic_id = ''a'', process = ()\<rparr>]\<rparr>)
      = Inr (AtConnectedWait [\<lparr>topic_id = ''b'', process = ()\<rparr>, \<lparr>topic_id = ''c'', process = ()\<rparr>],
             Websocket_init
               \<lparr>topics := [\<lparr>topic_id = ''a'', process = ()\<rparr>, \<lparr>topic_id = ''b'', process = ()\<rparr>,
                           \<lparr>topic_id = ''c'', process = ()\<rparr>]\<rparr>)"
proof -
  let ?a = "\<lparr>topic_id = ''a'', process = ()\<rparr>"
  let ?b = "\<lparr>topic_id = ''b'', process = ()\<rparr>"
  let ?c = "\<lparr>topic_id = ''c'', process = ()\<rparr>"
  let ?up = "(on_open Websocket_init)\<lparr>topics := [?a]\<rparr>"
  let ?down = "Websocket_init\<lparr>topics := [?a]\<rparr>"
  have c1: "connected ?up" by (simp add: on_open_def)
  have c2: "\<not> connected ?down" by (simp add: Websocket_init_def)
  have d: "difference_update (set_of [?b, ?a, ?b, ?c]) [?a] = [?b, ?c]"
    by (simp add: set_of_def difference_update_def set_add_def contains_def)
  have h3: "[?b, ?c] \<noteq> []" by simp
  have u: "update [?a] [?b, ?c] = [?a, ?b, ?c]"
    by (simp add: update_def set_add_def contains_def)
  have h1: "difference_update (set_of [?b, ?a, ?b, ?c]) (topics ?up) = [?b, ?c]"
    using d by simp
  have h1': "difference_update (set_of [?b, ?a, ?b, ?c]) (topics ?down) = [?b, ?c]"
    using d by simp
  have h4: "length (update (topics ?up) [?b, ?c]) < 50" using u by simp
  have h4': "length (update (topics ?down) [?b, ?c]) < 50" using u by simp
  have h5: "mset (rev [?b, ?c]) = mset [?b, ?c]" by (rule mset_rev)
  from add_topics_listens_new_topics
         [where iteration = rev and tok = "''token''" and nonce = "''nonce''" and later = ?up,
          OF h1 h3 h4 h5] c1 u
  have r1: "add_topics rev (Some ''token'') ''nonce'' [?b, ?a, ?b, ?c] ?up
      = Inr (AtReplyWait 0,
             (on_open Websocket_init)
               \<lparr>topics := [?a, ?b, ?c],
                send_queue :=
                  [(''nonce'', PDict [(''type'', PStr ''LISTEN''),
                                      (''data'', PDict [(''topics'', PList [PStr ''c'', PStr ''b'']),
                                                        (''auth_token'', PStr ''token'')])])],
                futures := [Pending],
                recv_dict := [(''nonce'', 0)]\<rparr>)"
    by (simp add: on_open_def Websocket_init_def setitem_def)
  from add_topics_listens_new_topics
         [where iteration = rev and tok = "''token''" and nonce = "''nonce''" and later = ?down,
          OF h1' h3 h4' h5] c2 u
  have r2: "add_topics rev (Some ''token'') ''nonce'' [?b, ?a, ?b, ?c] ?down
      = Inr (AtConnectedWait [?b, ?c], Websocket_init\<lparr>topics := [?a, ?b, ?c]\<rparr>)"
    by (simp add: Websocket_init_def)
  from c1 c2 d h5 r1 r2 show ?thesis by (intro conjI)
qed

subsection \<open>Routing\<close>

lemma find_topic_by_key:
  "distinct (map topic_id ts) \<Longrightarrow> t \<in> set ts \<Longrightarrow>
   find (value_eq_topic (PStr (topic_id t))) ts = Some t"
  by (induction ts) (auto simp: image_iff)

lemma find_topic_no_key:
  "\<forall>t\<in>set ts. topic_id t \<noteq> key \<Longrightarrow> find (value_eq_topic (PStr key)) ts = None"
  by (induction ts) auto

text \<open>
  C4, at a failing input. On a freshly opened connection with no pending request, a
  \<open>RESPONSE\<close> frame with the nonce \<open>abc\<close> makes the router raise \<open>KeyError\<close>, and the
  pump leaves for a new connection. With a slot pending under \<open>abc\<close>, the first such
  frame resolves and removes it, and the second raises \<open>KeyError\<close> in the same way.
\<close>

theorem response_unknown_nonce_raises:
  "route (map_of [(''frame'', PDict [(''type'', PStr ''RESPONSE''), (''nonce'', PStr ''abc'')])])
     ''frame'' (on_open Websocket_init)
     = Inl (KeyError, on_open Websocket_init)
   \<and> pump_body (map_of [(''frame'', PDict [(''type'', PStr ''RESPONSE''), (''nonce'', PStr ''abc'')])])
       (Frame ''frame'') (on_open Websocket_init)
     = (Reconnect, on_open Websocket_init)
   \<and> pump (map_of [(''frame'', PDict [(''type'', PStr ''RESPONSE''), (''nonce'', PStr ''abc'')])])
       [(id, Frame ''frame''), (id, Frame ''frame'')]
       ((on_open Websocket_init)\<lparr>recv_dict := [(''abc'', 0)], futures := [Pending]\<rparr>)
     = (Reconnect,
        (on_open Websocket_init)
          \<lparr>recv_dict := [],
           futures := [Finished (PDict [(''type'', PStr ''RESPONSE''), (''nonce'', PStr ''abc'')])]\<rparr>)
   \<and> route (map_of [(''frame'', PDict [(''type'', PStr ''PONG'')])])
       ''frame'' (on_open Websocket_init)
     = Inr (on_open Websocket_init)"
  by (simp add: route_def route_response_def route_pong_def pump_iteration_def pump_body_def
        process_send_def pending_def Websocket_init_def on_open_def)

text \<open>
  C7. Take an inbound frame that decodes to a message of type \<open>MESSAGE\<close> whose
  \<open>data.topic\<close> is the string \<open>key\<close>, and a held set without repeated keys. If a held
  topic \<open>t\<close> has that key and \<open>data.message\<close> is a string that decodes to
  \<open>payload\<close>, routing the frame invokes the handler of \<open>t\<close> once with \<open>payload\<close> and
  does nothing else. If no held topic has that key, routing the frame raises
  nothing and changes nothing, and the pump goes on as if no frame had arrived.
\<close>

theorem message_dispatch:
  assumes "loads raw = Some message"
      and "getitem message ''type'' = Inr (PStr ''MESSAGE'')"
      and "getitem message ''data'' = Inr data"
      and "getitem data ''topic'' = Inr (PStr key)"
      and "distinct (map topic_id (topics s))"
  shows "(t \<in> set (topics s) \<and> topic_id t = key
          \<and> getitem data ''message'' = Inr (PStr body) \<and> loads body = Some payload \<longrightarrow>
            route loads raw s = Inr (s\<lparr>calls := calls s @ [(process t, payload)]\<rparr>))
         \<and> ((\<forall>u\<in>set (topics s). topic_id u \<noteq> key) \<longrightarrow>
              route loads raw s = Inr s
              \<and> pump_body loads (Frame raw) s = pump_body loads Nothing s)"
proof -
  have r: "route loads raw s = route_message loads message s"
    using assms(1,2) by (simp add: route_def)
  have hit: "route loads raw s = Inr (s\<lparr>calls := calls s @ [(process t, payload)]\<rparr>)"
    if "t \<in> set (topics s)" "topic_id t = key"
       "getitem data ''message'' = Inr (PStr body)" "loads body = Some payload"
  proof -
    from assms(5) that(1) have "find (value_eq_topic (PStr (topic_id t))) (topics s) = Some t"
      by (rule find_topic_by_key)
    with that assms(3,4) show ?thesis
      by (simp add: r route_message_def)
  qed
  have miss: "route loads raw s = Inr s \<and> pump_body loads (Frame raw) s = pump_body loads Nothing s"
    if "\<forall>u\<in>set (topics s). topic_id u \<noteq> key"
  proof -
    from that have "find (value_eq_topic (PStr key)) (topics s) = None"
      by (rule find_topic_no_key)
    with assms(3,4) have "route loads raw s = Inr s"
      by (simp add: r route_message_def)
    then show ?thesis by (simp add: pump_body_def)
  qed
  have A: "t \<in> set (topics s) \<and> topic_id t = key
           \<and> getitem data ''message'' = Inr (PStr body) \<and> loads body = Some payload \<longrightarrow>
           route loads raw s = Inr (s\<lparr>calls := calls s @ [(process t, payload)]\<rparr>)"
  proof (intro impI, elim conjE)
    assume "t \<in> set (topics s)" "topic_id t = key"
           "getitem data ''message'' = Inr (PStr body)" "loads body = Some payload"
    then show "route loads raw s = Inr (s\<lparr>calls := calls s @ [(process t, payload)]\<rparr>)"
      by (rule hit)
  qed
  have B: "(\<forall>u\<in>set (topics s). topic_id u \<noteq> key) \<longrightarrow>
             route loads raw s = Inr s
             \<and> pump_body loads (Frame raw) s = pump_body loads Nothing s"
    by (rule impI, rule miss)
  from A B show ?thesis by (rule conjI)
qed

theorem message_dispatch_witness:
  "playback_loads ''frame'' = Some playback_frame
   \<and> getitem playback_frame ''type'' = Inr (PStr ''MESSAGE'')
   \<and> getitem playback_frame ''data''
       = Inr (PDict [(''topic'', PStr ''video-playback-by-id.42''), (''message'', PStr ''inner'')])
   \<and> route playback_loads ''frame''
        (Websocket_init\<lparr>topics := [\<lparr>topic_id = ''video-playback-by-id.7'', process = (7::nat)\<rparr>,
                                    \<lparr>topic_id = ''video-playback-by-id.42'', process = 42\<rparr>]\<rparr>)
       = Inr (Websocket_init
                \<lparr>topics := [\<lparr>topic_id = ''video-playback-by-id.7'', process = 7\<rparr>,
                            \<lparr>topic_id = ''video-playback-by-id.42'', process = 42\<rparr>],
                 calls := [(42, PDict [(''type'', PStr ''stream-down'')])]\<rparr>)
   \<and> route playback_loads ''frame''
        (Websocket_init\<lparr>topics := [\<lparr>topic_id = ''video-playback-by-id.7'', process = (7::nat)\<rparr>]\<rparr>)
       = Inr (Websocket_init\<lparr>topics := [\<lparr>topic_id = ''video-playback-by-id.7'', process = 7\<rparr>]\<rparr>)"
proof -
  let ?t7 = "\<lparr>topic_id = ''video-playback-by-id.7'', process = (7::nat)\<rparr>"
  let ?t42 = "\<lparr>topic_id = ''video-playback-by-id.42'', process = (42::nat)\<rparr>"
  let ?data = "PDict [(''topic'', PStr ''video-playback-by-id.42''), (''message'', PStr ''inner'')]"
  let ?payload = "PDict [(''type'', PStr ''stream-down'')]"
  let ?s = "Websocket_init\<lparr>topics := [?t7, ?t42]\<rparr>"
  let ?s' = "Websocket_init\<lparr>topics := [?t7]\<rparr>"
  have h1: "playback_loads ''frame'' = Some playback_frame"
    by (simp add: playback_loads_def)
  have h2: "getitem playback_frame ''type'' = Inr (PStr ''MESSAGE'')"
    by (simp add: playback_frame_def)
  have h3: "getitem playback_frame ''data'' = Inr ?data"
    by (simp add: playback_frame_def)
  have h4: "getitem ?data ''topic'' = Inr (PStr ''video-playback-by-id.42'')"
    by simp
  have d: "distinct (map topic_id (topics ?s))" by simp
  have d': "distinct (map topic_id (topics ?s'))" by simp
  have hit: "?t42 \<in> set (topics ?s) \<and> topic_id ?t42 = ''video-playback-by-id.42''
             \<and> getitem ?data ''message'' = Inr (PStr ''inner'')
             \<and> playback_loads ''inner'' = Some ?payload"
    by (simp add: playback_loads_def)
  have miss: "\<forall>u\<in>set (topics ?s'). topic_id u \<noteq> ''video-playback-by-id.42''"
    by simp
  from message_dispatch
         [where loads = playback_loads and raw = "''frame''" and message = playback_frame
            and data = ?data and key = "''video-playback-by-id.42''" and s = ?s
            and t = ?t42 and body = "''inner''" and payload = ?payload,
          OF h1 h2 h3 h4 d] hit
  have r1: "route playback_loads ''frame'' ?s = Inr (?s\<lparr>calls := calls ?s @ [(process ?t42, ?payload)]\<rparr>)"
    by blast
  from message_dispatch
         [where loads = playback_loads and raw = "''frame''" and message = playback_frame
            and data = ?data and key = "''video-playback-by-id.42''" and s = ?s'
            and t = ?t7 and body = "''inner''" and payload = ?payload,
          OF h1 h2 h3 h4 d'] miss
  have r2: "route playback_loads ''frame'' ?s' = Inr ?s'"
    by blast
  from h1 h2 h3 r1 r2 show ?thesis
    by (simp add: Websocket_init_def)
qed

subsection \<open>Reconnecting\<close>

text \<open>What \<open>process_send\<close> sends is the queue, stamped, in its order.\<close>

lemma drain_sends:
  "map (\<lambda>(nonce, message). stamp nonce message) q = map Inr frames \<Longrightarrow>
   drain q s = Inr (s\<lparr>send_queue := [], sent := sent s @ frames\<rparr>)"
proof (induction q arbitrary: s frames)
  case Nil
  then show ?case by simp
next
  case (Cons x q)
  obtain nonce message where x: "x = (nonce, message)" by (cases x)
  from Cons.prems x obtain f fs where fr: "frames = f # fs"
    and st: "stamp nonce message = Inr f"
    and rest: "map (\<lambda>(nonce, message). stamp nonce message) q = map Inr fs"
    by (cases frames) auto
  from Cons.IH [OF rest] show ?case
    by (simp add: x st fr Let_def)
qed

text \<open>The first cycle of a ping task queues what \<open>ping_begin\<close> queues.\<close>

lemma ping_loop_begins:
  "connected s \<Longrightarrow> ping_loop [Replied others] s = (Running, others (ping_begin s))"
  by (simp add: ping_begin_def send_def Let_def)

text \<open>
  C3 as stated fails: one topic is held and nothing is queued. On the first
  connection the ping task queues its PING, the pump sends it, and the connection
  is closed with an error. On the new connection the new ping task queues its
  PING and the pump runs two iterations without an inbound frame. The frames sent
  on the new connection are that one PING: no LISTEN request is sent or queued,
  although the held set is not empty.
\<close>

theorem reconnect_without_listen:
  "topics (Websocket_init\<lparr>topics := [\<lparr>topic_id = ''video-playback-by-id.42'', process = ()\<rparr>]\<rparr>) \<noteq> []
   \<and> connect_loop (map_of [])
        [[(ping_begin, Nothing), (id, Closed ClosedError)],
         [(ping_begin, Nothing), (id, Nothing)]]
        (Websocket_init\<lparr>topics := [\<lparr>topic_id = ''video-playback-by-id.42'', process = ()\<rparr>]\<rparr>)
      = \<lparr>connected = True, reconnect = False, send_queue = [], recv_dict = [(''PING'', 1)],
         futures = [Pending, Pending],
         topics = [\<lparr>topic_id = ''video-playback-by-id.42'', process = ()\<rparr>],
         ping_task = Some 1, next_task = 2,
         task_log = [TaskCreated 0, TaskCancelled 0, TaskCreated 1],
         sent = [PDict [(''type'', PStr ''PING'')], PDict [(''type'', PStr ''PING'')]],
         calls = []\<rparr>"
  by (simp add: Websocket_init_def on_open_def pump_iteration_def pump_body_def on_closed_def
        process_send_def ping_begin_def send_def stamp_def setitem_def Let_def)

text \<open>
  C3, amended. Take any reconnect: a connection whose pump ends asking for a new
  one, in the state \<open>s\<close>, followed by the opening of the next connection. The
  opening sets \<open>connected\<close>, clears the reconnect signal and leaves the held set,
  the send queue and the frames sent as they were: the connection loop queues and
  sends no re-announcement, whether the held set is empty or not. In the first
  iteration of the new pump, when no frame arrives and the other tasks running
  during the wait (\<open>others\<close>: the new ping task, callers of \<open>add_topics\<close> released by
  \<open>connected\<close>) do not set the reconnect signal, the frames sent are exactly the
  requests that are in the queue at that moment, stamped, in their order; the
  queue is then empty and nothing else has changed.
\<close>

theorem reconnect_sends_only_queued:
  assumes "pump loads steps (on_open start) = (Reconnect, s)"
      and "\<not> reconnect (others (on_open s))"
      and "map (\<lambda>(nonce, message). stamp nonce message) (send_queue (others (on_open s)))
             = map Inr frames"
  shows "connected (on_open s) \<and> \<not> reconnect (on_open s)
         \<and> topics (on_open s) = topics s
         \<and> send_queue (on_open s) = send_queue s
         \<and> sent (on_open s) = sent s
         \<and> recv_dict (on_open s) = recv_dict s
         \<and> connect_loop loads [steps, [(others, Nothing)]] start
             = (others (on_open s))
                 \<lparr>send_queue := [], sent := sent (others (on_open s)) @ frames\<rparr>"
proof -
  let ?s1 = "others (on_open s)"
  have opened: "connected (on_open s) \<and> \<not> reconnect (on_open s)
         \<and> topics (on_open s) = topics s
         \<and> send_queue (on_open s) = send_queue s
         \<and> sent (on_open s) = sent s
         \<and> recv_dict (on_open s) = recv_dict s"
    by (simp add: on_open_def)
  have sends: "process_send ?s1 = Inr (?s1\<lparr>send_queue := [], sent := sent ?s1 @ frames\<rparr>)"
    unfolding process_send_def using assms(3) by (rule drain_sends)
  have body: "pump_iteration loads (others, Nothing) (on_open s)
                = (KeepPumping, ?s1\<lparr>send_queue := [], sent := sent ?s1 @ frames\<rparr>)"
    using assms(2) by (simp add: pump_iteration_def pump_body_def sends)
  from opened have "\<not> reconnect (on_open s)" by simp
  then have "pump loads [(others, Nothing)] (on_open s)
               = (KeepPumping, ?s1\<lparr>send_queue := [], sent := sent ?s1 @ frames\<rparr>)"
    by (simp add: body)
  then have loop: "connect_loop loads [steps, [(others, Nothing)]] start
                     = ?s1\<lparr>send_queue := [], sent := sent ?s1 @ frames\<rparr>"
    by (simp add: assms(1))
  from opened loop show ?thesis by simp
qed

theorem reconnect_sends_only_queued_witness:
  "pump reconnect_loads [(ping_begin, Frame ''reconnect'')]
     (on_open (Websocket_init\<lparr>topics := [\<lparr>topic_id = ''user-drop-events.1'', process = ()\<rparr>]\<rparr>))
     = (Reconnect,
        \<lparr>connected = True, reconnect = True,
         send_queue = [(''PING'', PDict [(''type'', PStr ''PING'')])],
         recv_dict = [(''PING'', 0)], futures = [Pending],
         topics = [\<lparr>topic_id = ''user-drop-events.1'', process = ()\<rparr>],
         ping_task = Some 0, next_task = 1, task_log = [TaskCreated 0], sent = [],
         calls = []\<rparr>)
   \<and> connect_loop reconnect_loads
        [[(ping_begin, Frame ''reconnect'')], [(ping_begin, Nothing)]]
        (Websocket_init\<lparr>topics := [\<lparr>topic_id = ''user-drop-events.1'', process = ()\<rparr>]\<rparr>)
      = \<lparr>connected = True, reconnect = False, send_queue = [],
         recv_dict = [(''PING'', 1)], futures = [Pending, Pending],
         topics = [\<lparr>topic_id = ''user-drop-events.1'', process = ()\<rparr>],
         ping_task = Some 1, next_task = 2, task_log = [TaskCreated 0, TaskCreated 1],
         sent = [PDict [(''type'', PStr ''PING'')], PDict [(''type'', PStr ''PING'')]],
         calls = []\<rparr>"
proof -
  let ?first = "Websocket_init\<lparr>topics := [\<lparr>topic_id = ''user-drop-events.1'', process = ()\<rparr>]\<rparr>"
  let ?prev = "\<lparr>connected = True, reconnect = True,
             send_queue = [(''PING'', PDict [(''type'', PStr ''PING'')])],
             recv_dict = [(''PING'', 0)], futures = [Pending],
             topics = [\<lparr>topic_id = ''user-drop-events.1'', process = ()\<rparr>],
             ping_task = Some 0, next_task = 1, task_log = [TaskCreated 0], sent = [],
             calls = []\<rparr>"
  let ?ping = "PDict [(''type'', PStr ''PING'')]"
  have h1: "pump reconnect_loads [(ping_begin, Frame ''reconnect'')] (on_open ?first) = (Reconnect, ?prev)"
    by code_simp
  have after: "ping_begin (on_open ?prev)
                 = \<lparr>connected = True, reconnect = False,
                    send_queue = [(''PING'', ?ping), (''PING'', ?ping)],
                    recv_dict = [(''PING'', 1)], futures = [Pending, Pending],
                    topics = [\<lparr>topic_id = ''user-drop-events.1'', process = ()\<rparr>],
                    ping_task = Some 1, next_task = 2,
                    task_log = [TaskCreated 0, TaskCreated 1], sent = [], calls = []\<rparr>"
    by (simp add: on_open_def ping_begin_def send_def setitem_def Let_def)
  have h2: "\<not> reconnect (ping_begin (on_open ?prev))"
    using after by simp
  have h3: "map (\<lambda>(nonce, message). stamp nonce message) (send_queue (ping_begin (on_open ?prev)))
              = map Inr [?ping, ?ping]"
    using after by (simp add: stamp_def)
  from reconnect_sends_only_queued [where others = ping_begin, OF h1 h2 h3] after
  have "connect_loop reconnect_loads
          [[(ping_begin, Frame ''reconnect'')], [(ping_begin, Nothing)]] ?first
        = \<lparr>connected = True, reconnect = False, send_queue = [],
           recv_dict = [(''PING'', 1)], futures = [Pending, Pending],
           topics = [\<lparr>topic_id = ''user-drop-events.1'', process = ()\<rparr>],
           ping_task = Some 1, next_task = 2, task_log = [TaskCreated 0, TaskCreated 1],
           sent = [?ping, ?ping], calls = []\<rparr>"
    by simp
  with h1 show ?thesis by simp
qed

subsection \<open>The ping loop\<close>

text \<open>
  C8. In a cycle of the ping loop that starts with the connection up and whose
  PING gets no reply within the timeout, the loop queues that one PING, sets the
  reconnect signal and ends: whatever cycles would follow, the result is that of
  the single cycle. Opening a connection creates a new ping task, sets
  \<open>connected\<close> and clears the reconnect signal.
\<close>

theorem ping_timeout_reconnects:
  "(connected s \<longrightarrow>
      ping_loop (NoReply others # rest) s
        = (Ended,
           (let s1 = s\<lparr>send_queue := send_queue s @ [(''PING'', PDict [(''type'', PStr ''PING'')])],
                       futures := futures s @ [Pending],
                       recv_dict := setitem (recv_dict s) ''PING'' (length (futures s))\<rparr>;
                s2 = others s1
            in (if pending (futures s2) (length (futures s))
                then s2\<lparr>futures := (futures s2)[length (futures s) := Cancelled]\<rparr>
                else s2)\<lparr>reconnect := True\<rparr>))
      \<and> reconnect (snd (ping_loop (NoReply others # rest) s))
      \<and> ping_loop (NoReply others # rest) s = ping_loop [NoReply others] s)
   \<and> ping_task (on_open s) = Some (next_task s)
   \<and> task_log (on_open s) = task_log s @ [TaskCreated (next_task s)]
   \<and> next_task (on_open s) = Suc (next_task s)
   \<and> connected (on_open s) \<and> \<not> reconnect (on_open s)"
  by (simp add: send_def on_open_def Let_def)

theorem ping_timeout_reconnects_witness:
  "connected (on_open Websocket_init)
   \<and> ping_loop [NoReply id, Replied id, Replied id] (on_open Websocket_init)
      = (Ended,
         \<lparr>connected = True, reconnect = True,
          send_queue = [(''PING'', PDict [(''type'', PStr ''PING'')])],
          recv_dict = [(''PING'', 0)], futures = [Cancelled], topics = [],
          ping_task = Some 0, next_task = 1, task_log = [TaskCreated 0], sent = [],
          calls = ([] :: (unit \<times> pyval) list)\<rparr>)"
  using ping_timeout_reconnects [of "on_open Websocket_init" id "[Replied id, Replied id]"]
  by (simp add: send_def on_open_def Websocket_init_def setitem_def pending_def Let_def)

section \<open>Properties of twitch.py\<close>

lemma find_first_match:
  "\<forall>c\<in>set xs. \<not> P c \<Longrightarrow> P a \<Longrightarrow> find P (xs @ a # ys) = Some a"
  by (induction xs) auto

text \<open>
  C5 as stated fails: with channel 7 eligible, first in the scan and already
  watched by task 0, a re-evaluation with the change signal set selects channel 7
  again, cancels task 0 and creates task 1 for the same channel.
\<close>

theorem reevaluation_restarts_same_channel:
  "find (eligible {''game''})
     (map snd [(7, \<lparr>channel_id = 7, name = ''a'',
                    stream = Some \<lparr>drops_enabled = True, game = ''game'', viewer_count = 3\<rparr>\<rparr>)])
     = Some \<lparr>channel_id = 7, name = ''a'',
             stream = Some \<lparr>drops_enabled = True, game = ''game'', viewer_count = 3\<rparr>\<rparr>
   \<and> run_iteration stream {''game''}
        (True,
         \<lparr>channels = [(7, \<lparr>channel_id = 7, name = ''a'',
                            stream = Some \<lparr>drops_enabled = True, game = ''game'', viewer_count = 3\<rparr>\<rparr>)],
          watching_channel = Some 7, watching_task = Some 0, channel_change = True,
          next_watcher = 1, watch_log = [WatcherCreated 0 7]\<rparr>)
      = (Watched, True,
         \<lparr>channels = [(7, \<lparr>channel_id = 7, name = ''a'',
                            stream = Some \<lparr>drops_enabled = True, game = ''game'', viewer_count = 3\<rparr>\<rparr>)],
          watching_channel = Some 7, watching_task = Some 1, channel_change = False,
          next_watcher = 2,
          watch_log = [WatcherCreated 0 7, WatcherCancelled 0, WatcherCreated 1 7]\<rparr>)"
  by (simp add: run_iteration_def eligible_def watch_def Let_def)

text \<open>
  C5, amended. While the change signal is clear the scheduler does not re-evaluate:
  the iteration stays blocked and nothing is cancelled or started. A re-evaluation
  that runs (signal set) and finds a first eligible channel always cancels the
  running watcher task, if there is one, and starts a new one for the selected
  channel, also when that channel is the one already watched; it clears the
  signal, so the next iteration is blocked until the signal is set again.
\<close>

theorem reevaluation_gated_by_signal:
  "(\<not> channel_change t \<longrightarrow> run_iteration get_stream games (r, t) = (Blocked, r, t))
   \<and> (channel_change t \<and> find (eligible games) (map snd (channels t)) = Some c \<longrightarrow>
        run_iteration get_stream games (r, t)
          = (Watched, True, (watch c t)\<lparr>channel_change := False\<rparr>)
        \<and> watch_log (watch c t)
            = watch_log t
              @ (case watching_task t of None \<Rightarrow> [] | Some task \<Rightarrow> [WatcherCancelled task])
              @ [WatcherCreated (next_watcher t) (channel_id c)]
        \<and> run_iteration get_stream games (True, (watch c t)\<lparr>channel_change := False\<rparr>)
            = (Blocked, True, (watch c t)\<lparr>channel_change := False\<rparr>))"
  by (simp add: run_iteration_def watch_def Let_def split: option.split)

theorem reevaluation_gated_by_signal_witness:
  "\<not> channel_change
       \<lparr>channels = [(7, \<lparr>channel_id = 7, name = ''a'',
                          stream = Some \<lparr>drops_enabled = True, game = ''game'', viewer_count = 3\<rparr>\<rparr>)],
        watching_channel = Some 7, watching_task = Some 0, channel_change = False,
        next_watcher = 1, watch_log = [WatcherCreated 0 7]\<rparr>
   \<and> run_iteration stream {''game''}
        (True,
         \<lparr>channels = [(7, \<lparr>channel_id = 7, name = ''a'',
                            stream = Some \<lparr>drops_enabled = True, game = ''game'', viewer_count = 3\<rparr>\<rparr>)],
          watching_channel = Some 7, watching_task = Some 0, channel_change = False,
          next_watcher = 1, watch_log = [WatcherCreated 0 7]\<rparr>)
      = (Blocked, True,
         \<lparr>channels = [(7, \<lparr>channel_id = 7, name = ''a'',
                            stream = Some \<lparr>drops_enabled = True, game = ''game'', viewer_count = 3\<rparr>\<rparr>)],
          watching_channel = Some 7, watching_task = Some 0, channel_change = False,
          next_watcher = 1, watch_log = [WatcherCreated 0 7]\<rparr>)
   \<and> channel_change
        \<lparr>channels = [(7, \<lparr>channel_id = 7, name = ''a'',
                           stream = Some \<lparr>drops_enabled = True, game = ''game'', viewer_count = 3\<rparr>\<rparr>)],
         watching_channel = None, watching_task = None, channel_change = True,
         next_watcher = 0, watch_log = []\<rparr>
   \<and> run_iteration stream {''game''}
        (False,
         \<lparr>channels = [(7, \<lparr>channel_id = 7, name = ''a'',
                            stream = Some \<lparr>drops_enabled = True, game = ''game'', viewer_count = 3\<rparr>\<rparr>)],
          watching_channel = None, watching_task = None, channel_change = True,
          next_watcher = 0, watch_log = []\<rparr>)
      = (Watched, True,
         \<lparr>channels = [(7, \<lparr>channel_id = 7, name = ''a'',
                            stream = Some \<lparr>drops_enabled = True, game = ''game'', viewer_count = 3\<rparr>\<rparr>)],
          watching_channel = Some 7, watching_task = Some 0, channel_change = False,
          next_watcher = 1, watch_log = [WatcherCreated 0 7]\<rparr>)"
proof -
  let ?c = "\<lparr>channel_id = 7, name = ''a'',
             stream = Some \<lparr>drops_enabled = True, game = ''game'', viewer_count = 3\<rparr>\<rparr>"
  let ?t0 = "\<lparr>channels = [(7, ?c)], watching_channel = None, watching_task = None,
              channel_change = True, next_watcher = 0, watch_log = []\<rparr>"
  let ?t1 = "\<lparr>channels = [(7, ?c)], watching_channel = Some 7, watching_task = Some 0,
              channel_change = False, next_watcher = 1, watch_log = [WatcherCreated 0 7]\<rparr>"
  have f: "find (eligible {''game''}) (map snd (channels ?t0)) = Some ?c"
    by (simp add: eligible_def)
  have w: "(watch ?c ?t0)\<lparr>channel_change := False\<rparr> = ?t1"
    by (simp add: watch_def)
  from reevaluation_gated_by_signal [of ?t1 stream "{''game''}" True ?c]
  have blocked: "run_iteration stream {''game''} (True, ?t1) = (Blocked, True, ?t1)"
    by simp
  from reevaluation_gated_by_signal [of ?t0 stream "{''game''}" False ?c] f
  have "run_iteration stream {''game''} (False, ?t0)
          = (Watched, True, (watch ?c ?t0)\<lparr>channel_change := False\<rparr>)"
    by simp
  with w have watched: "run_iteration stream {''game''} (False, ?t0) = (Watched, True, ?t1)"
    by simp
  from blocked watched show ?thesis by simp
qed

text \<open>
  C6. On a re-evaluation (change signal set), the channels are scanned in the
  order of the dictionary, which is the order of insertion, and the first channel
  whose stream is online, has drops enabled and plays a game of the interest set
  is the one watched: if the channels before \<open>A\<close> are not eligible and \<open>A\<close> is,
  \<open>A\<close> is selected, whatever follows it. In particular, of two eligible channels the
  one listed first is selected.
\<close>

theorem first_eligible_selected:
  assumes "channel_change t"
      and "map snd (channels t) = xs @ A # ys"
      and "\<forall>c\<in>set xs. \<not> eligible games c"
      and "eligible games A"
  shows "run_iteration get_stream games (r, t)
           = (Watched, True, (watch A t)\<lparr>channel_change := False\<rparr>)
         \<and> watching_channel (snd (snd (run_iteration get_stream games (r, t))))
             = Some (channel_id A)
         \<and> (stream A \<noteq> None
             \<and> drops_enabled (the (stream A)) \<and> game (the (stream A)) \<in> games)"
proof -
  from assms(3,4) have "find (eligible games) (xs @ A # ys) = Some A"
    by (rule find_first_match)
  with assms(1,2) have run: "run_iteration get_stream games (r, t)
           = (Watched, True, (watch A t)\<lparr>channel_change := False\<rparr>)"
    by (simp add: run_iteration_def Let_def)
  then have sel: "watching_channel (snd (snd (run_iteration get_stream games (r, t))))
             = Some (channel_id A)"
    by (simp add: watch_def Let_def split: option.split)
  from assms(4) have el: "stream A \<noteq> None
             \<and> drops_enabled (the (stream A)) \<and> game (the (stream A)) \<in> games"
    by (auto simp: eligible_def split: option.splits)
  from run sel el show ?thesis by simp
qed

theorem first_eligible_selected_witness:
  "channel_change three_channels
   \<and> map snd (channels three_channels) = [offline_channel] @ channel_A # [channel_B]
   \<and> \<not> eligible {''game''} offline_channel
   \<and> eligible {''game''} channel_A
   \<and> eligible {''game''} channel_B
   \<and> run_iteration stream {''game''} (False, three_channels)
      = (Watched, True,
         three_channels
           \<lparr>watching_channel := Some 2, watching_task := Some 0, channel_change := False,
            next_watcher := 1, watch_log := [WatcherCreated 0 2]\<rparr>)"
proof -
  have h1: "channel_change three_channels"
    by (simp add: three_channels_def track_channel_def)
  have h2: "map snd (channels three_channels) = [offline_channel] @ channel_A # [channel_B]"
    by (simp add: three_channels_def track_channel_def offline_channel_def channel_A_def
          channel_B_def)
  have off: "\<not> eligible {''game''} offline_channel"
    by (simp add: eligible_def offline_channel_def)
  then have h3: "\<forall>c\<in>set [offline_channel]. \<not> eligible {''game''} c"
    by simp
  have h4: "eligible {''game''} channel_A"
    by (simp add: eligible_def channel_A_def)
  have b: "eligible {''game''} channel_B"
    by (simp add: eligible_def channel_B_def)
  have w: "(watch channel_A three_channels)\<lparr>channel_change := False\<rparr>
             = three_channels
                 \<lparr>watching_channel := Some 2, watching_task := Some 0, channel_change := False,
                  next_watcher := 1, watch_log := [WatcherCreated 0 2]\<rparr>"
    by (simp add: watch_def three_channels_def track_channel_def channel_A_def)
  from first_eligible_selected [OF h1 h2 h3 h4, of stream False] w
  have "run_iteration stream {''game''} (False, three_channels)
          = (Watched, True,
             three_channels
               \<lparr>watching_channel := Some 2, watching_task := Some 0, channel_change := False,
                next_watcher := 1, watch_log := [WatcherCreated 0 2]\<rparr>)"
    by simp
  with h1 h2 off h4 b show ?thesis by simp
qed

end
